theory Spec2Isabelle
  imports Main
begin

section \<open>Values that travel over the approval channel\<close>

text \<open>
  A correlation id is read from three places in \<^verbatim>\<open>store.js\<close>: the numeric
  \<^verbatim>\<open>txParams.id\<close> of a transaction, the string key produced by \<^verbatim>\<open>for (let id in ...)\<close>
  over a message collection, and the \<^verbatim>\<open>id\<close> field of a received decision, which is
  \<^verbatim>\<open>undefined\<close> when the field is absent or the data is a bare string. On these
  three kinds of value JavaScript's \<^verbatim>\<open>===\<close> is HOL equality. Numbers are taken to be
  integers that a JavaScript number holds exactly (below \<open>2 ^ 53\<close> in absolute value):
  ids are never \<^verbatim>\<open>NaN\<close> or fractional, and \<^verbatim>\<open>ToString\<close> prints them as plain decimal
  digits (the exponent form starts at \<open>10 ^ 21\<close>). Strings are taken to be ASCII.
\<close>

datatype jsid = Undefined | Num int | Str string

datatype error = NoNewTransactions | TypeError | SyntaxError

subsection \<open>Property keys and \<^verbatim>\<open>parseInt(id, 10)\<close>\<close>

fun showNat :: "nat \<Rightarrow> string" where
  "showNat n =
     (if n < 10 then [''0123456789'' ! n]
      else showNat (n div 10) @ [''0123456789'' ! (n mod 10)])"

declare showNat.simps [simp del]

definition showInt :: "int \<Rightarrow> string" where
  "showInt i = (if i < 0 then CHR ''-'' # showNat (nat (- i)) else showNat (nat i))"

text \<open>
  \<^verbatim>\<open>ToString\<close>: the string JavaScript uses when a value indexes an object
  (\<^verbatim>\<open>state.unapprovedMsgs[ev.data.id]\<close>) or is handed to \<^verbatim>\<open>parseInt\<close>.
\<close>

definition toKey :: "jsid \<Rightarrow> string" where
  "toKey j = (case j of Undefined \<Rightarrow> ''undefined'' | Num n \<Rightarrow> showInt n | Str s \<Rightarrow> s)"

definition isSpace :: "char \<Rightarrow> bool" where
  "isSpace c = (c \<in> set [CHR '' '', CHR 0x09, CHR 0x0A, CHR 0x0B, CHR 0x0C, CHR 0x0D])"

definition isDigit :: "char \<Rightarrow> bool" where
  "isDigit c = (c \<in> set ''0123456789'')"

definition digitVal :: "char \<Rightarrow> nat" where
  "digitVal c = of_char c - 48"

fun decVal :: "nat \<Rightarrow> string \<Rightarrow> nat" where
  "decVal a [] = a"
| "decVal a (c # cs) = decVal (10 * a + digitVal c) cs"

definition parseDigits :: "string \<Rightarrow> nat option" where
  "parseDigits s =
     (let ds = takeWhile isDigit s in if ds = [] then None else Some (decVal 0 ds))"

text \<open>
  \<^verbatim>\<open>parseInt(x, 10)\<close>: leading white space is skipped, one sign is accepted, the
  longest run of decimal digits is read; \<open>None\<close> is \<^verbatim>\<open>NaN\<close>. \<open>isSpace\<close> holds the
  six ASCII characters JavaScript counts as white space or line terminator; the
  others it skips (U+00A0, U+FEFF, the Unicode spaces, U+2028, U+2029) are not ASCII.
\<close>

definition parseIntStr :: "string \<Rightarrow> int option" where
  "parseIntStr s =
     (case dropWhile isSpace s of
        [] \<Rightarrow> None
      | c # cs \<Rightarrow>
          if c = CHR ''-'' then map_option (\<lambda>n. - int n) (parseDigits cs)
          else if c = CHR ''+'' then map_option int (parseDigits cs)
          else map_option int (parseDigits (c # cs)))"

definition parseInt :: "jsid \<Rightarrow> int option" where
  "parseInt j = parseIntStr (toKey j)"

section \<open>The pending-request registry (Vuex state read by \<^verbatim>\<open>store.js\<close>)\<close>

record msgParams =
  mp_data :: string
  mp_from :: string
  mp_message :: "string option"
  mp_typedMessages :: "string option"
  mp_metamaskId :: "int option option"

text \<open>
  Of a pending message the code reads \<^verbatim>\<open>.time\<close> and \<^verbatim>\<open>.msgParams\<close> only.
  \<open>mp_metamaskId = Some None\<close> is a \<^verbatim>\<open>metamaskId\<close> that was set to \<^verbatim>\<open>NaN\<close>.
\<close>

record message =
  msg_time :: int
  msg_params :: msgParams

datatype tx_status = Unapproved | Approved | Submitted | Confirmed | Failed

record txParams =
  tp_from :: string
  tp_to :: string
  tp_value :: string
  tp_gas :: string
  tp_gasPrice :: string
  tp_data :: "string option"

record txMeta =
  tx_id :: int
  tx_params :: txParams
  tx_status :: tx_status
  tx_time :: int
  tx_hash :: "string option"

text \<open>
  Each collection is a JavaScript object keyed by id. It is kept as the list of its
  (key, value) pairs in the order \<^verbatim>\<open>for ... in\<close> and \<^verbatim>\<open>Object.keys\<close> enumerate them.
  \<open>weiBalance\<close> is \<^verbatim>\<open>state.weiBalance[state.selectedAddress]\<close> rendered by
  \<^verbatim>\<open>toString()\<close>, \<open>None\<close> when that entry is undefined.
\<close>

record store =
  unapprovedMsgs :: "(string \<times> message) list"
  unapprovedPersonalMsgs :: "(string \<times> message) list"
  unapprovedTypedMessages :: "(string \<times> message) list"
  transactions :: "(string \<times> txMeta) list"
  weiBalance :: "string option"
  networkHost :: string

text \<open>
  Modelled from the spec: the getter \<^verbatim>\<open>unApprovedTransactions\<close> lives in
  \<^verbatim>\<open>store/getters.js\<close>, which is not among the sources. The spec describes it as
  enumerating the members of the transaction collection currently in
  \<^verbatim>\<open>unapproved\<close> status.
\<close>

definition unApprovedTransactions :: "store \<Rightarrow> txMeta list" where
  "unApprovedTransactions st =
     filter (\<lambda>t. tx_status t = Unapproved) (map snd (transactions st))"

subsection \<open>\<^verbatim>\<open>isTorusTransaction\<close>\<close>

definition isTorusTransaction :: "store \<Rightarrow> error + bool" where
  "isTorusTransaction st =
     (if unapprovedPersonalMsgs st \<noteq> [] then Inr False
      else if unapprovedMsgs st \<noteq> [] then Inr False
      else if unapprovedTypedMessages st \<noteq> [] then Inr False
      else if unApprovedTransactions st \<noteq> [] then Inr True
      else Inl NoNewTransactions)"

subsection \<open>\<^verbatim>\<open>getLatestMessageParams\<close>\<close>

datatype kind = Plain | Personal | Typed

text \<open>
  The loop variables \<^verbatim>\<open>time\<close>, \<^verbatim>\<open>msg\<close> and \<^verbatim>\<open>finalId\<close>. \<^verbatim>\<open>msg\<close> is a reference
  to an object of the state: the collection and key say which object, the record is
  its current content.
\<close>

type_synonym candidate = "int \<times> (kind \<times> string \<times> message) option \<times> jsid"

fun scanMessages :: "kind \<Rightarrow> (string \<times> message) list \<Rightarrow> candidate \<Rightarrow> candidate" where
  "scanMessages k [] c = c"
| "scanMessages k ((key, m) # rest) (t, msg, finalId) =
     (if msg_time m > t then scanMessages k rest (msg_time m, Some (k, key, m), Str key)
      else scanMessages k rest (t, msg, finalId))"

definition updateEntry :: "string \<Rightarrow> ('a \<Rightarrow> 'a) \<Rightarrow> (string \<times> 'a) list \<Rightarrow> (string \<times> 'a) list" where
  "updateEntry key f xs = map (\<lambda>(k, v). if k = key then (k, f v) else (k, v)) xs"

definition setMessage :: "string \<Rightarrow> message \<Rightarrow> message" where
  "setMessage s m = m\<lparr>msg_params := (msg_params m)\<lparr>mp_message := Some s\<rparr>\<rparr>"

definition setTyped :: "message \<Rightarrow> message" where
  "setTyped m =
     m\<lparr>msg_params := (msg_params m)\<lparr>mp_typedMessages := Some (mp_data (msg_params m))\<rparr>\<rparr>"

text \<open>
  \<^verbatim>\<open>hexToUtf8\<close> comes from web3-utils and is a parameter; \<open>None\<close> is a throw, caught by
  the \<^verbatim>\<open>try\<close> around it.
\<close>

definition displayText :: "(string \<Rightarrow> string option) \<Rightarrow> message \<Rightarrow> string" where
  "displayText hexToUtf8 m =
     (case hexToUtf8 (mp_data (msg_params m)) of
        Some s \<Rightarrow> s
      | None \<Rightarrow> mp_data (msg_params m))"

text \<open>
  \<^verbatim>\<open>if (msg) { ... msg.msgParams.message = finalMsg }\<close>: the write goes through the
  reference, so the object in the state changes as well.
\<close>

definition decorate :: "(string \<Rightarrow> string option) \<Rightarrow> candidate \<Rightarrow> store \<Rightarrow> candidate \<times> store" where
  "decorate hexToUtf8 c st =
     (case c of
        (t, None, finalId) \<Rightarrow> (c, st)
      | (t, Some (k, key, m), finalId) \<Rightarrow>
          (let f = setMessage (displayText hexToUtf8 m) in
           ((t, Some (k, key, f m), finalId),
            (case k of
               Plain \<Rightarrow> st\<lparr>unapprovedMsgs := updateEntry key f (unapprovedMsgs st)\<rparr>
             | Personal \<Rightarrow>
                 st\<lparr>unapprovedPersonalMsgs := updateEntry key f (unapprovedPersonalMsgs st)\<rparr>
             | Typed \<Rightarrow>
                 st\<lparr>unapprovedTypedMessages := updateEntry key f (unapprovedTypedMessages st)\<rparr>))))"

text \<open>
  The third loop writes \<^verbatim>\<open>typedMessages\<close> into every typed message it selects on the way;
  it returns the collection as it stands afterwards.
\<close>

fun scanTyped :: "(string \<times> message) list \<Rightarrow> candidate \<Rightarrow> candidate \<times> (string \<times> message) list" where
  "scanTyped [] c = (c, [])"
| "scanTyped ((key, m) # rest) (t, msg, finalId) =
     (if msg_time m > t then
        (case scanTyped rest (msg_time m, Some (Typed, key, setTyped m), Str key) of
           (c', rest') \<Rightarrow> (c', (key, setTyped m) # rest'))
      else
        (case scanTyped rest (t, msg, finalId) of
           (c', rest') \<Rightarrow> (c', (key, m) # rest')))"

text \<open>The result \<open>None\<close> is the empty object \<^verbatim>\<open>{}\<close> returned when \<^verbatim>\<open>msg\<close> is still null.\<close>

definition getLatestMessageParams ::
    "(string \<Rightarrow> string option) \<Rightarrow> store \<Rightarrow> (msgParams \<times> jsid) option \<times> store" where
  "getLatestMessageParams hexToUtf8 st =
     (let c1 = scanMessages Plain (unapprovedMsgs st) (0, None, Num 0);
          c2 = scanMessages Personal (unapprovedPersonalMsgs st) c1
      in case decorate hexToUtf8 c2 st of
           (c2', st') \<Rightarrow>
             (case scanTyped (unapprovedTypedMessages st') c2' of
                (c3, typed') \<Rightarrow>
                  ((case c3 of
                      (t, None, finalId) \<Rightarrow> None
                    | (t, Some (k, key, m), finalId) \<Rightarrow> Some (msg_params m, finalId)),
                   st'\<lparr>unapprovedTypedMessages := typed'\<rparr>)))"

section \<open>Resolving a decision: \<^verbatim>\<open>handleConfirm\<close> and \<^verbatim>\<open>handleDeny\<close>\<close>

text \<open>
  The operations of \<^verbatim>\<open>torusController\<close> that the two functions call. An id argument
  is the result of \<^verbatim>\<open>parseInt\<close>, so \<open>None\<close> is \<^verbatim>\<open>NaN\<close>;
  \<^verbatim>\<open>updateAndApproveTransaction\<close> receives \<^verbatim>\<open>undefined\<close> (\<open>None\<close>) when \<^verbatim>\<open>find\<close> found
  nothing.
\<close>

datatype call =
    SignPersonalMessage msgParams
  | SignMessage msgParams
  | SignTypedMessage msgParams
  | UpdateTransaction txMeta
  | UpdateAndApproveTransaction "txMeta option"
  | CancelPersonalMessage "int option"
  | CancelMessage "int option"
  | CancelTypedMessage "int option"
  | CancelTransaction "int option"

text \<open>
  The data of a decision message. \<open>d_id = Undefined\<close> and \<open>d_gasPrice = None\<close> are
  absent fields. The field \<^verbatim>\<open>approve\<close> is never read by \<^verbatim>\<open>store.js\<close> and is left out.
\<close>

record decision =
  d_type :: string
  d_id :: jsid
  d_gasPrice :: "string option"

text \<open>\<^verbatim>\<open>if (ev.data.gasPrice)\<close>: an absent field and the empty string are both falsy.\<close>

definition carriedGasPrice :: "decision \<Rightarrow> string option" where
  "carriedGasPrice d =
     (case d_gasPrice d of None \<Rightarrow> None | Some g \<Rightarrow> if g = [] then None else Some g)"

definition stampId :: "jsid \<Rightarrow> message \<Rightarrow> message" where
  "stampId i m = m\<lparr>msg_params := (msg_params m)\<lparr>mp_metamaskId := Some (parseInt i)\<rparr>\<rparr>"

text \<open>
  A key that is not in the collection reads \<^verbatim>\<open>undefined\<close>, and \<^verbatim>\<open>.msgParams\<close> of it
  raises a TypeError. \<^verbatim>\<open>JSON.parse(JSON.stringify(txMeta))\<close> copies the record, and
  raises a SyntaxError when \<^verbatim>\<open>txMeta\<close> is \<^verbatim>\<open>undefined\<close>. The store is returned because
  \<^verbatim>\<open>msgParams.metamaskId = ...\<close> writes into the object held by the state.
\<close>

definition handleConfirm :: "store \<Rightarrow> decision \<Rightarrow> error + (store \<times> call list)" where
  "handleConfirm st d =
     (if unapprovedPersonalMsgs st \<noteq> [] then
        (case map_of (unapprovedPersonalMsgs st) (toKey (d_id d)) of
           None \<Rightarrow> Inl TypeError
         | Some m \<Rightarrow>
             Inr (st\<lparr>unapprovedPersonalMsgs :=
                       updateEntry (toKey (d_id d)) (stampId (d_id d)) (unapprovedPersonalMsgs st)\<rparr>,
                  [SignPersonalMessage (msg_params (stampId (d_id d) m))]))
      else if unapprovedMsgs st \<noteq> [] then
        (case map_of (unapprovedMsgs st) (toKey (d_id d)) of
           None \<Rightarrow> Inl TypeError
         | Some m \<Rightarrow>
             Inr (st\<lparr>unapprovedMsgs :=
                       updateEntry (toKey (d_id d)) (stampId (d_id d)) (unapprovedMsgs st)\<rparr>,
                  [SignMessage (msg_params (stampId (d_id d) m))]))
      else if unapprovedTypedMessages st \<noteq> [] then
        (case map_of (unapprovedTypedMessages st) (toKey (d_id d)) of
           None \<Rightarrow> Inl TypeError
         | Some m \<Rightarrow>
             Inr (st\<lparr>unapprovedTypedMessages :=
                       updateEntry (toKey (d_id d)) (stampId (d_id d)) (unapprovedTypedMessages st)\<rparr>,
                  [SignTypedMessage (msg_params (stampId (d_id d) m))]))
      else if transactions st \<noteq> [] then
        (let txMeta = find (\<lambda>x. Num (tx_id x) = d_id d) (unApprovedTransactions st) in
         case carriedGasPrice d of
           Some g \<Rightarrow>
             (case txMeta of
                None \<Rightarrow> Inl SyntaxError
              | Some t \<Rightarrow>
                  (let newTxMeta = t\<lparr>tx_params := (tx_params t)\<lparr>tp_gasPrice := g\<rparr>\<rparr>
                   in Inr (st, [UpdateTransaction newTxMeta,
                                UpdateAndApproveTransaction (Some newTxMeta)])))
         | None \<Rightarrow> Inr (st, [UpdateAndApproveTransaction txMeta]))
      else Inl NoNewTransactions)"

definition handleDeny :: "store \<Rightarrow> jsid \<Rightarrow> call list" where
  "handleDeny st i =
     (if unapprovedPersonalMsgs st \<noteq> [] then [CancelPersonalMessage (parseInt i)]
      else if unapprovedMsgs st \<noteq> [] then [CancelMessage (parseInt i)]
      else if unapprovedTypedMessages st \<noteq> [] then [CancelTypedMessage (parseInt i)]
      else if transactions st \<noteq> [] then [CancelTransaction (parseInt i)]
      else [])"

section \<open>The approval session opened by \<^verbatim>\<open>showPopup\<close>\<close>

text \<open>
  \<^verbatim>\<open>ev.data\<close> is either a string (the surface sends \<^verbatim>\<open>'popup-loaded'\<close>) or a decision
  object. Reading \<^verbatim>\<open>.id\<close> or \<^verbatim>\<open>.type\<close> of a string gives \<^verbatim>\<open>undefined\<close>.
\<close>

datatype evdata = DString string | DObject decision

definition data_id :: "evdata \<Rightarrow> jsid" where
  "data_id ev = (case ev of DString s \<Rightarrow> Undefined | DObject d \<Rightarrow> d_id d)"

text \<open>
  What the orchestrator posts once the surface is ready: origin, then for a
  transaction the record, the network host and the balance; for a message the
  \<^verbatim>\<open>msgParams\<close> and \<^verbatim>\<open>id\<close> captured when the surface was opened.
\<close>

datatype payload =
    TransactionPayload string txMeta string string
  | MessagePayload string "msgParams option" jsid

text \<open>
  What a callback of the session does to the outside: \<^verbatim>\<open>log.error\<close>, \<^verbatim>\<open>bc.postMessage\<close>,
  a call of \<^verbatim>\<open>handleDeny\<close> or \<^verbatim>\<open>handleConfirm\<close> with its argument and the controller
  calls it made, and an exception that leaves the callback.
\<close>

datatype effect =
    LogError string
  | PostMessage payload
  | Denied jsid "call list"
  | Confirmed decision "call list"
  | Uncaught error

text \<open>
  The variables closed over by the two callbacks. \<open>confirmWindow\<close> is \<open>None\<close> for
  \<^verbatim>\<open>undefined\<close> or \<^verbatim>\<open>null\<close> (a blocked popup), otherwise \<open>Some c\<close> with \<open>c\<close> the
  window's \<^verbatim>\<open>closed\<close> flag. \<open>iClosedConfirmWindow\<close> starts \<^verbatim>\<open>undefined\<close>, which is
  \<open>False\<close> here: only its truthiness is read. \<open>bcOpen\<close> and \<open>timerOn\<close> say that
  \<^verbatim>\<open>bc.close()\<close> and \<^verbatim>\<open>clearInterval(confirmTimer)\<close> have not happened yet.
\<close>

record session =
  channelName :: string
  confirmWindow :: "bool option"
  windowSize :: "nat \<times> nat"
  iClosedConfirmWindow :: bool
  txId :: jsid
  bcOpen :: bool
  timerOn :: bool
  isTx :: bool
  balance :: string
  txParamsVar :: "txMeta option"
  latestMsg :: "(msgParams \<times> jsid) option"

record web3utils =
  hexToUtf8 :: "string \<Rightarrow> string option"
  fromWei :: "string \<Rightarrow> string"

definition lastOpt :: "'a list \<Rightarrow> 'a option" where
  "lastOpt xs = (if xs = [] then None else Some (last xs))"

text \<open>
  \<open>instanceId\<close> is \<^verbatim>\<open>torus.instanceId\<close>; \<open>opened\<close> says whether \<^verbatim>\<open>window.open\<close>
  returned a window.
\<close>

definition showPopup :: "web3utils \<Rightarrow> string \<Rightarrow> bool \<Rightarrow> store \<Rightarrow> error + (store \<times> session)" where
  "showPopup u instanceId opened st =
     (case isTorusTransaction st of
        Inl e \<Rightarrow> Inl e
      | Inr isTx' \<Rightarrow>
          (let s = \<lparr>channelName = ''torus_channel_'' @ instanceId,
                    confirmWindow = (if opened then Some False else None),
                    windowSize = (500, if isTx' then 660 else 400),
                    iClosedConfirmWindow = False,
                    txId = Undefined,
                    bcOpen = True,
                    timerOn = True,
                    isTx = isTx',
                    balance = [],
                    txParamsVar = None,
                    latestMsg = None\<rparr>
           in if isTx' then
                (case weiBalance st of
                   None \<Rightarrow> Inl TypeError
                 | Some w \<Rightarrow>
                     Inr (st, s\<lparr>balance := fromWei u w,
                                txParamsVar := lastOpt (unApprovedTransactions st)\<rparr>))
              else
                (case getLatestMessageParams (hexToUtf8 u) st of
                   (r, st') \<Rightarrow> Inr (st', s\<lparr>latestMsg := r\<rparr>))))"

text \<open>
  The tail shared by both decisions: \<^verbatim>\<open>bc.close()\<close>, \<^verbatim>\<open>iClosedConfirmWindow = true\<close>,
  \<^verbatim>\<open>txId = undefined\<close>, \<^verbatim>\<open>confirmWindow && confirmWindow.close()\<close>.
\<close>

definition resolved :: "session \<Rightarrow> session" where
  "resolved s =
     s\<lparr>bcOpen := False,
       iClosedConfirmWindow := True,
       txId := Undefined,
       confirmWindow := map_option (\<lambda>c. True) (confirmWindow s)\<rparr>"

text \<open>
  \<^verbatim>\<open>bc.onmessage\<close>. \<open>origin\<close> is the embedding page's origin, read from
  \<^verbatim>\<open>window.location\<close> when the payload is posted. The transaction and the message
  variant of the callback differ in the ready branch only.
\<close>

definition onmessage :: "string \<Rightarrow> store \<Rightarrow> session \<Rightarrow> evdata \<Rightarrow> store \<times> session \<times> effect list" where
  "onmessage origin st s ev =
     (if txId s \<noteq> Undefined \<and> txId s \<noteq> data_id ev then (st, s, [])
      else if ev = DString ''popup-loaded'' \<and> txId s = Undefined then
        (if isTx s then
           (case txParamsVar s of
              None \<Rightarrow> (st, s, [Uncaught TypeError])
            | Some t \<Rightarrow>
                (st, s\<lparr>txId := Num (tx_id t)\<rparr>,
                 [PostMessage (TransactionPayload origin t (networkHost st) (balance s))]))
         else
           (case latestMsg s of
              None \<Rightarrow> (st, s, [PostMessage (MessagePayload origin None Undefined)])
            | Some (mp, i) \<Rightarrow>
                (st, s\<lparr>txId := i\<rparr>, [PostMessage (MessagePayload origin (Some mp) i)])))
      else
        (case ev of
           DString x \<Rightarrow> (st, s, [])
         | DObject d \<Rightarrow>
             if d_type d = ''confirm-transaction'' then
               (case handleConfirm st d of
                  Inl e \<Rightarrow> (st, s, [Uncaught e])
                | Inr (st', cs) \<Rightarrow> (st', resolved s, [Confirmed d cs]))
             else if d_type d = ''deny-transaction'' then
               (st, resolved s, [Denied (d_id d) (handleDeny st (d_id d))])
             else (st, s, [])))"

text \<open>A closed channel delivers nothing.\<close>

definition deliver :: "string \<Rightarrow> store \<Rightarrow> session \<Rightarrow> evdata \<Rightarrow> store \<times> session \<times> effect list" where
  "deliver origin st s ev = (if bcOpen s then onmessage origin st s ev else (st, s, []))"

fun deliverAll :: "string \<Rightarrow> store \<Rightarrow> session \<Rightarrow> evdata list \<Rightarrow> store \<times> session \<times> effect list" where
  "deliverAll origin st s [] = (st, s, [])"
| "deliverAll origin st s (ev # evs) =
     (case deliver origin st s ev of
        (st', s', es) \<Rightarrow>
          (case deliverAll origin st' s' evs of
             (st'', s'', es') \<Rightarrow> (st'', s'', es @ es')))"

text \<open>The user closing the surface: the window's \<^verbatim>\<open>closed\<close> flag becomes true.\<close>

definition userCloses :: "session \<Rightarrow> session" where
  "userCloses s = s\<lparr>confirmWindow := map_option (\<lambda>c. True) (confirmWindow s)\<rparr>"

text \<open>The body of the \<^verbatim>\<open>setInterval\<close> callback \<^verbatim>\<open>confirmTimer\<close>.\<close>

definition confirmTimer :: "store \<Rightarrow> session \<Rightarrow> session \<times> effect list" where
  "confirmTimer st s =
     (case confirmWindow s of
        None \<Rightarrow> (s, [Uncaught TypeError])
      | Some closed \<Rightarrow>
          if closed then
            (s\<lparr>timerOn := False,
               bcOpen := False,
               txId := Undefined,
               iClosedConfirmWindow := False,
               confirmWindow := None\<rparr>,
             if \<not> iClosedConfirmWindow s
             then [LogError ''user closed popup'', Denied (txId s) (handleDeny st (txId s))]
             else [])
          else (s, []))"

text \<open>One interval of the timer: a cleared timer does not run its callback.\<close>

definition tick :: "store \<Rightarrow> session \<Rightarrow> session \<times> effect list" where
  "tick st s = (if timerOn s then confirmTimer st s else (s, []))"




fun callsOf :: "effect \<Rightarrow> call list" where
  "callsOf (Denied i cs) = cs"
| "callsOf (Confirmed d cs) = cs"
| "callsOf e = []"

definition controllerCalls :: "effect list \<Rightarrow> call list" where
  "controllerCalls es = concat (map callsOf es)"

section \<open>The payload transform stage (\<^verbatim>\<open>transformStream\<close>)\<close>

text \<open>
  The values the field \<^verbatim>\<open>from\<close> of the first parameter can hold: absent, \<^verbatim>\<open>null\<close>, a
  boolean, a number, a string, a \<^verbatim>\<open>Buffer\<close> of bytes, or the empty array the stage
  itself stores.
\<close>

datatype fromval =
    FUndefined
  | FNull
  | FBool bool
  | FNum int
  | FStr string
  | FBuffer "nat list"
  | FEmptyArray

fun truthy :: "fromval \<Rightarrow> bool" where
  "truthy FUndefined = False"
| "truthy FNull = False"
| "truthy (FBool b) = b"
| "truthy (FNum n) = (n \<noteq> 0)"
| "truthy (FStr s) = (s \<noteq> [])"
| "truthy (FBuffer b) = True"
| "truthy FEmptyArray = True"

fun typeofString :: "fromval \<Rightarrow> string option" where
  "typeofString (FStr s) = Some s"
| "typeofString v = None"

record callParams =
  cp_from :: fromval
  cp_to :: "string option"
  cp_data :: "string option"

text \<open>
  A request as the stage sees it. \<open>rpc_params = None\<close> is a request without
  \<^verbatim>\<open>params\<close>; parameters are objects.
\<close>

record request =
  rpc_id :: int
  rpc_method :: string
  rpc_params :: "callParams list option"

text \<open>
  \<^verbatim>\<open>Buffer.from(s, 'hex')\<close> is a parameter of the stage (the \<^verbatim>\<open>Buffer\<close> implementation is
  the bundler's); whatever it raises is caught and handed to the callback as the error.
  Reading \<^verbatim>\<open>chunk.params[0].from\<close> raises a TypeError when \<^verbatim>\<open>params\<close> or its first
  element is missing.
\<close>

definition transform :: "(string \<Rightarrow> error + nat list) \<Rightarrow> request \<Rightarrow> error + request" where
  "transform bufferFrom chunk =
     (if rpc_method chunk = ''eth_call'' \<or> rpc_method chunk = ''eth_estimateGas'' then
        (case rpc_params chunk of
           None \<Rightarrow> Inl TypeError
         | Some [] \<Rightarrow> Inl TypeError
         | Some (p # ps) \<Rightarrow>
             (case (if truthy (cp_from p) then typeofString (cp_from p) else None) of
                Some s \<Rightarrow>
                  if take 2 s = ''0x'' then
                    (case bufferFrom (drop 2 s) of
                       Inl e \<Rightarrow> Inl e
                     | Inr b \<Rightarrow> Inr (chunk\<lparr>rpc_params := Some (p\<lparr>cp_from := FBuffer b\<rparr> # ps)\<rparr>))
                  else Inr chunk
              | None \<Rightarrow>
                  if \<not> truthy (cp_from p)
                  then Inr (chunk\<lparr>rpc_params := Some (p\<lparr>cp_from := FEmptyArray\<rparr> # ps)\<rparr>)
                  else Inr chunk))
      else Inr chunk)"

text \<open>The stage applied to its own output; an error ends the stream.\<close>

definition transformTwice :: "(string \<Rightarrow> error + nat list) \<Rightarrow> request \<Rightarrow> error + request" where
  "transformTwice bufferFrom chunk =
     (case transform bufferFrom chunk of
        Inl e \<Rightarrow> Inl e
      | Inr chunk' \<Rightarrow> transform bufferFrom chunk')"

text \<open>
  Node's hex decoding, used to run the stage on examples: pairs of hex digits are
  read up to the first pair that is not hex; a single trailing digit is dropped.
\<close>

definition hexVal :: "char \<Rightarrow> nat option" where
  "hexVal c = map_of (zip ''0123456789abcdefABCDEF''
                          [0, 1, 2, 3, 4, 5, 6, 7, 8, 9, 10, 11, 12, 13, 14, 15, 10, 11, 12, 13, 14, 15]) c"

fun hexPairs :: "string \<Rightarrow> nat list" where
  "hexPairs (a # b # rest) =
     (case (hexVal a, hexVal b) of
        (Some x, Some y) \<Rightarrow> (16 * x + y) # hexPairs rest
      | other \<Rightarrow> [])"
| "hexPairs s = []"

definition nodeBufferFrom :: "string \<Rightarrow> error + nat list" where
  "nodeBufferFrom s = Inr (hexPairs s)"

section \<open>The network-change surface (\<^verbatim>\<open>ProviderChange.vue\<close>)\<close>

text \<open>
  The component's \<^verbatim>\<open>data()\<close>. \<open>pc_payload\<close> is \<^verbatim>\<open>this.payload\<close>: the empty object
  (\<open>None\<close>) until the opener's message has stored \<^verbatim>\<open>{network, type}\<close> in it.
\<close>

record providerChange =
  pc_origin :: string
  pc_type :: string
  pc_network :: string
  pc_rpcNetwork :: "(string \<times> string) option"
  pc_payload :: "(string \<times> string) option"

record pcDecision =
  pd_type :: string
  pd_payload :: "(string \<times> string) option option"
  pd_approve :: bool

text \<open>What a method of the component does, in program order.\<close>

datatype surfaceAction =
    NewChannel string
  | Post string pcDecision
  | CloseChannel string
  | WindowClose

definition triggerSign :: "providerChange \<Rightarrow> surfaceAction list" where
  "triggerSign this =
     [NewChannel ''torus_provider_change_channel'',
      Post ''torus_provider_change_channel''
        \<lparr>pd_type = ''confirm-provider-change'', pd_payload = Some (pc_payload this), pd_approve = True\<rparr>,
      CloseChannel ''torus_provider_change_channel'',
      WindowClose]"

definition triggerDeny :: "providerChange \<Rightarrow> surfaceAction list" where
  "triggerDeny this =
     [NewChannel ''torus_provider_change_channel'',
      Post ''torus_provider_change_channel''
        \<lparr>pd_type = ''deny-provider-change'', pd_payload = None, pd_approve = False\<rparr>,
      CloseChannel ''torus_provider_change_channel'',
      WindowClose]"

section \<open>Vocabulary of the statements\<close>

text \<open>The controller operations of the transaction path.\<close>

fun isTransactionCall :: "call \<Rightarrow> bool" where
  "isTransactionCall (UpdateTransaction t) = True"
| "isTransactionCall (UpdateAndApproveTransaction t) = True"
| "isTransactionCall (CancelTransaction i) = True"
| "isTransactionCall c = False"

text \<open>
  The pending messages in the order \<^verbatim>\<open>getLatestMessageParams\<close> scans them: plain, then
  personal, then typed, each collection in its enumeration order.
\<close>

type_synonym entry = "kind \<times> string \<times> message"

definition entries :: "store \<Rightarrow> entry list" where
  "entries st =
     map (Pair Plain) (unapprovedMsgs st) @
     map (Pair Personal) (unapprovedPersonalMsgs st) @
     map (Pair Typed) (unapprovedTypedMessages st)"

definition timeOf :: "entry \<Rightarrow> int" where
  "timeOf e = msg_time (snd (snd e))"

fun scanRank :: "kind \<Rightarrow> nat" where
  "scanRank Plain = 0"
| "scanRank Personal = 1"
| "scanRank Typed = 2"

text \<open>
  The display fields the function writes into the message it returns: \<^verbatim>\<open>message\<close> for a
  plain or personal message, \<^verbatim>\<open>typedMessages\<close> for a typed one.
\<close>

definition shown :: "(string \<Rightarrow> string option) \<Rightarrow> kind \<Rightarrow> message \<Rightarrow> message" where
  "shown h k m = (if k = Typed then setTyped m else setMessage (displayText h m) m)"

text \<open>
  The loop invariant: after the entries \<open>xs\<close> have been scanned, the candidate is the
  first entry of \<open>xs\<close> whose time is the largest, provided that time is positive; \<open>V\<close>
  says which display fields have been written into it.
\<close>

definition selects :: "(kind \<Rightarrow> message \<Rightarrow> message) \<Rightarrow> entry list \<Rightarrow> candidate \<Rightarrow> bool" where
  "selects V xs c =
     (case c of
        (t, None, fid) \<Rightarrow> t = 0 \<and> (\<forall>e\<in>set xs. timeOf e \<le> 0)
      | (t, Some (k, key, m'), fid) \<Rightarrow>
          0 < t \<and> fid = Str key \<and>
          (\<exists>pre m post. xs = pre @ (k, key, m) # post \<and> m' = V k m \<and> t = msg_time m \<and>
             (\<forall>e\<in>set pre. timeOf e < t) \<and> (\<forall>e\<in>set post. timeOf e \<le> t)))"

section \<open>Example states\<close>

definition ex_mp :: "string \<Rightarrow> msgParams" where
  "ex_mp d = \<lparr>mp_data = d, mp_from = ''0xab'', mp_message = None,
              mp_typedMessages = None, mp_metamaskId = None\<rparr>"

definition ex_msg :: "int \<Rightarrow> string \<Rightarrow> message" where
  "ex_msg t d = \<lparr>msg_time = t, msg_params = ex_mp d\<rparr>"

definition ex_tx :: txMeta where
  "ex_tx = \<lparr>tx_id = 7,
            tx_params = \<lparr>tp_from = ''0xab'', tp_to = ''0xcd'', tp_value = ''0x0'',
                         tp_gas = ''0x5208'', tp_gasPrice = ''0x3b9aca00'', tp_data = None\<rparr>,
            tx_status = Unapproved, tx_time = 100, tx_hash = None\<rparr>"

definition ex_empty :: store where
  "ex_empty = \<lparr>unapprovedMsgs = [], unapprovedPersonalMsgs = [], unapprovedTypedMessages = [],
               transactions = [], weiBalance = Some ''1000'', networkHost = ''mainnet''\<rparr>"

text \<open>One unapproved transaction, no messages.\<close>

definition ex_txStore :: store where
  "ex_txStore = ex_empty\<lparr>transactions := [(''7'', ex_tx)]\<rparr>"

text \<open>The same transaction together with one personal message.\<close>

definition ex_mixed :: store where
  "ex_mixed = ex_txStore\<lparr>unapprovedPersonalMsgs := [(''3'', ex_msg 50 ''0x6869'')]\<rparr>"

text \<open>
  \<open>ex_mixed\<close> after \<^verbatim>\<open>showPopup\<close>: \<^verbatim>\<open>getLatestMessageParams\<close> has written the display
  field into the personal message.
\<close>

definition ex_mixed_shown :: store where
  "ex_mixed_shown =
     ex_txStore\<lparr>unapprovedPersonalMsgs :=
       [(''3'', \<lparr>msg_time = 50,
                 msg_params = ex_mp ''0x6869''\<lparr>mp_message := Some ''0x6869''\<rparr>\<rparr>)]\<rparr>"

text \<open>No message, and a single transaction that is already approved.\<close>

definition ex_approvedStore :: store where
  "ex_approvedStore = ex_empty\<lparr>transactions := [(''7'', ex_tx\<lparr>tx_status := Approved\<rparr>)]\<rparr>"

text \<open>A plain and a typed message with the same time.\<close>

definition ex_tie :: store where
  "ex_tie = ex_empty\<lparr>unapprovedMsgs := [(''1'', ex_msg 5 ''0x01'')],
                      unapprovedTypedMessages := [(''2'', ex_msg 5 ''typed'')]\<rparr>"

text \<open>A personal message at time 50 and a typed message at time 75.\<close>

definition ex_two :: store where
  "ex_two = ex_empty\<lparr>unapprovedPersonalMsgs := [(''3'', ex_msg 50 ''0x6869'')],
                      unapprovedTypedMessages := [(''4'', ex_msg 75 ''typed'')]\<rparr>"

definition ex_utils :: web3utils where
  "ex_utils = \<lparr>hexToUtf8 = (\<lambda>s. None), fromWei = (\<lambda>s. s)\<rparr>"

text \<open>The session of \<open>ex_txStore\<close> after the ready signal: the correlation id is 7.\<close>

definition ex_session :: session where
  "ex_session =
     \<lparr>channelName = ''torus_channel_a1'', confirmWindow = Some False,
      windowSize = (500, 660), iClosedConfirmWindow = False, txId = Num 7, bcOpen = True,
      timerOn = True, isTx = True, balance = ''1000'', txParamsVar = Some ex_tx,
      latestMsg = None\<rparr>"

text \<open>The session of \<open>ex_mixed\<close> as \<^verbatim>\<open>showPopup\<close> leaves it: no ready signal yet.\<close>

definition ex_fresh :: session where
  "ex_fresh =
     \<lparr>channelName = ''torus_channel_a1'', confirmWindow = Some False,
      windowSize = (500, 400), iClosedConfirmWindow = False, txId = Undefined, bcOpen = True,
      timerOn = True, isTx = False, balance = [], txParamsVar = None,
      latestMsg = Some (ex_mp ''0x6869''\<lparr>mp_message := Some ''0x6869''\<rparr>, Str ''3'')\<rparr>"

definition ex_component :: providerChange where
  "ex_component =
     \<lparr>pc_origin = ''dapp.example'', pc_type = ''non-rpc'', pc_network = ''rinkeby'',
      pc_rpcNetwork = None, pc_payload = Some (''rinkeby'', ''predefined'')\<rparr>"

definition ex_request :: request where
  "ex_request =
     \<lparr>rpc_id = 1, rpc_method = ''eth_call'',
      rpc_params = Some [\<lparr>cp_from = FStr ''0x00ff'', cp_to = Some ''0xcd'', cp_data = None\<rparr>]\<rparr>"

definition ex_request_nofrom :: request where
  "ex_request_nofrom =
     \<lparr>rpc_id = 2, rpc_method = ''eth_estimateGas'',
      rpc_params = Some [\<lparr>cp_from = FUndefined, cp_to = Some ''0xcd'', cp_data = None\<rparr>]\<rparr>"

section \<open>The example sessions are the ones \<^verbatim>\<open>showPopup\<close> builds\<close>

lemma showPopup_ex_txStore:
  "showPopup ex_utils ''a1'' True ex_txStore = Inr (ex_txStore, ex_session\<lparr>txId := Undefined\<rparr>)"
  by (simp add: showPopup_def isTorusTransaction_def ex_txStore_def ex_empty_def
      unApprovedTransactions_def ex_tx_def ex_session_def ex_utils_def lastOpt_def)

lemma ready_ex_txStore:
  "deliver ''https://dapp.example'' ex_txStore (ex_session\<lparr>txId := Undefined\<rparr>)
     (DString ''popup-loaded'') =
   (ex_txStore, ex_session,
    [PostMessage (TransactionPayload ''https://dapp.example'' ex_tx ''mainnet'' ''1000'')])"
  by (simp add: deliver_def onmessage_def ex_session_def ex_tx_def ex_txStore_def ex_empty_def)

section \<open>Classification of the pending work\<close>

text \<open>
  C2. \<^verbatim>\<open>isTorusTransaction\<close> raises exactly when nothing is pending: the three message
  collections and the unapproved transactions are all empty. The error is then
  \<^verbatim>\<open>'No new transactions.'\<close>; in every other state a classification is returned.
\<close>

theorem isTorusTransaction_fails_iff_nothing_pending:
  "(isTorusTransaction st = Inl NoNewTransactions) =
     (unApprovedTransactions st = [] \<and> unapprovedMsgs st = [] \<and>
      unapprovedPersonalMsgs st = [] \<and> unapprovedTypedMessages st = []) \<and>
   (\<exists>e. isTorusTransaction st = Inl e) =
     (unApprovedTransactions st = [] \<and> unapprovedMsgs st = [] \<and>
      unapprovedPersonalMsgs st = [] \<and> unapprovedTypedMessages st = []) \<and>
   (\<exists>b. isTorusTransaction st = Inr b) =
     (\<not> (unApprovedTransactions st = [] \<and> unapprovedMsgs st = [] \<and>
         unapprovedPersonalMsgs st = [] \<and> unapprovedTypedMessages st = []))"
  by (auto simp: isTorusTransaction_def)

theorem isTorusTransaction_fails_iff_nothing_pending_witness:
  "isTorusTransaction ex_empty = Inl NoNewTransactions \<and>
   (\<exists>b. isTorusTransaction ex_txStore = Inr b) \<and>
   (\<exists>b. isTorusTransaction ex_two = Inr b)"
  using isTorusTransaction_fails_iff_nothing_pending [of ex_empty]
    isTorusTransaction_fails_iff_nothing_pending [of ex_txStore]
    isTorusTransaction_fails_iff_nothing_pending [of ex_two]
  by (simp add: ex_empty_def ex_txStore_def ex_two_def ex_tx_def unApprovedTransactions_def)

section \<open>Denying when nothing is pending\<close>

text \<open>
  C9 (as amended). When the three message collections and \<^verbatim>\<open>state.transactions\<close>, which
  holds the transactions of every status, are all empty, \<^verbatim>\<open>handleDeny\<close> calls no operation
  of the controller, whatever the id, and returns normally; \<^verbatim>\<open>handleConfirm\<close> raises
  \<^verbatim>\<open>'No new transactions.'\<close> in the same state.
\<close>

theorem handleDeny_nothing_pending_no_call:
  assumes "unapprovedPersonalMsgs st = []" and "unapprovedMsgs st = []"
    and "unapprovedTypedMessages st = []" and "transactions st = []"
  shows "handleDeny st i = [] \<and> handleConfirm st d = Inl NoNewTransactions"
  using assms by (simp add: handleDeny_def handleConfirm_def)

theorem handleDeny_nothing_pending_no_call_witness:
  "unapprovedPersonalMsgs ex_empty = [] \<and> unapprovedMsgs ex_empty = [] \<and>
   unapprovedTypedMessages ex_empty = [] \<and> transactions ex_empty = [] \<and>
   handleDeny ex_empty (Num 7) = [] \<and>
   handleConfirm ex_empty \<lparr>d_type = ''confirm-transaction'', d_id = Num 7, d_gasPrice = None\<rparr>
     = Inl NoNewTransactions"
proof -
  have a: "unapprovedPersonalMsgs ex_empty = []" "unapprovedMsgs ex_empty = []"
    "unapprovedTypedMessages ex_empty = []" "transactions ex_empty = []"
    by (simp_all add: ex_empty_def)
  show ?thesis
    using a handleDeny_nothing_pending_no_call [OF a, of "Num 7"
        "\<lparr>d_type = ''confirm-transaction'', d_id = Num 7, d_gasPrice = None\<rparr>"]
    by simp
qed

text \<open>
  With "pending" read as not yet approved, the claim as stated fails on
  \<open>ex_approvedStore\<close>: nothing is pending there (\<^verbatim>\<open>isTorusTransaction\<close> raises), yet
  \<^verbatim>\<open>handleDeny\<close> calls \<^verbatim>\<open>cancelTransaction\<close> and \<^verbatim>\<open>handleConfirm\<close> does not raise.
\<close>

theorem handleDeny_approved_only_counterexample:
  "unapprovedPersonalMsgs ex_approvedStore = [] \<and> unapprovedMsgs ex_approvedStore = [] \<and>
   unapprovedTypedMessages ex_approvedStore = [] \<and>
   unApprovedTransactions ex_approvedStore = [] \<and>
   isTorusTransaction ex_approvedStore = Inl NoNewTransactions \<and>
   handleDeny ex_approvedStore (Num 7) = [CancelTransaction (Some 7)] \<and>
   handleConfirm ex_approvedStore
     \<lparr>d_type = ''confirm-transaction'', d_id = Num 7, d_gasPrice = None\<rparr> =
   Inr (ex_approvedStore, [UpdateAndApproveTransaction None])"
proof -
  have p: "parseInt (Num 7) = Some 7"
    by code_simp
  show ?thesis
    by (simp add: ex_approvedStore_def ex_empty_def ex_tx_def unApprovedTransactions_def
        isTorusTransaction_def handleDeny_def handleConfirm_def carriedGasPrice_def p)
qed

section \<open>Stale decisions\<close>

lemma deliver_stale:
  "txId s \<noteq> Undefined \<Longrightarrow> data_id ev \<noteq> txId s \<Longrightarrow> deliver origin st s ev = (st, s, [])"
  by (auto simp: deliver_def onmessage_def)

text \<open>
  C4. Once the correlation id \<^verbatim>\<open>txId\<close> is assigned, any sequence of messages whose
  carried id differs from it (under \<^verbatim>\<open>!==\<close>) changes nothing: the registry and every
  variable of the session are as before (so the channel and the surface stay open and
  the id stays), and nothing is posted, logged or sent to the controller.
\<close>

theorem stale_decisions_ignored:
  assumes "txId s \<noteq> Undefined" and "\<forall>ev\<in>set evs. data_id ev \<noteq> txId s"
  shows "deliverAll origin st s evs = (st, s, [])"
  using assms by (induction evs) (simp_all add: deliver_stale)

theorem stale_decisions_ignored_witness:
  "txId ex_session \<noteq> Undefined \<and>
   data_id (DObject \<lparr>d_type = ''confirm-transaction'', d_id = Num 8, d_gasPrice = None\<rparr>)
     \<noteq> txId ex_session \<and>
   data_id (DString ''popup-loaded'') \<noteq> txId ex_session \<and>
   data_id (DObject \<lparr>d_type = ''deny-transaction'', d_id = Str ''7'', d_gasPrice = None\<rparr>)
     \<noteq> txId ex_session \<and>
   deliverAll ''https://dapp.example'' ex_txStore ex_session
     [DObject \<lparr>d_type = ''confirm-transaction'', d_id = Num 8, d_gasPrice = None\<rparr>,
      DString ''popup-loaded'',
      DObject \<lparr>d_type = ''deny-transaction'', d_id = Str ''7'', d_gasPrice = None\<rparr>]
   = (ex_txStore, ex_session, [])"
proof -
  have a: "txId ex_session \<noteq> Undefined"
    by (simp add: ex_session_def)
  have b: "\<forall>ev\<in>set [DObject \<lparr>d_type = ''confirm-transaction'', d_id = Num 8, d_gasPrice = None\<rparr>,
              DString ''popup-loaded'',
              DObject \<lparr>d_type = ''deny-transaction'', d_id = Str ''7'', d_gasPrice = None\<rparr>].
      data_id ev \<noteq> txId ex_session"
    by (simp add: ex_session_def data_id_def)
  show ?thesis
    using a b stale_decisions_ignored [OF a b] by simp
qed

section \<open>The watchdog\<close>


lemma tick_user_closed:
  "timerOn s \<Longrightarrow> confirmWindow s = Some c \<Longrightarrow> \<not> iClosedConfirmWindow s \<Longrightarrow>
   tick st (userCloses s) =
     (s\<lparr>timerOn := False, bcOpen := False, txId := Undefined,
        iClosedConfirmWindow := False, confirmWindow := None\<rparr>,
      [LogError ''user closed popup'', Denied (txId s) (handleDeny st (txId s))])"
  by (simp add: tick_def confirmTimer_def userCloses_def)






section \<open>The network-change surface\<close>

text \<open>
  C8. Both actions of the network-change surface open the channel named
  \<^verbatim>\<open>torus_provider_change_channel\<close> (a constant: no instance id enters the name), post
  one decision on it, close the channel and then close the window. The decision carries
  \<^verbatim>\<open>approve = true\<close> for \<^verbatim>\<open>triggerSign\<close> and \<^verbatim>\<open>approve = false\<close> for \<^verbatim>\<open>triggerDeny\<close>,
  whatever the state of the component.
\<close>

theorem provider_change_decision_on_fixed_channel:
  "(\<exists>m. triggerSign this =
          [NewChannel ''torus_provider_change_channel'',
           Post ''torus_provider_change_channel'' m,
           CloseChannel ''torus_provider_change_channel'',
           WindowClose] \<and> pd_approve m = True) \<and>
   (\<exists>m. triggerDeny this =
          [NewChannel ''torus_provider_change_channel'',
           Post ''torus_provider_change_channel'' m,
           CloseChannel ''torus_provider_change_channel'',
           WindowClose] \<and> pd_approve m = False)"
  by (simp add: triggerSign_def triggerDeny_def)

theorem provider_change_decision_on_fixed_channel_witness:
  "triggerSign ex_component =
     [NewChannel ''torus_provider_change_channel'',
      Post ''torus_provider_change_channel''
        \<lparr>pd_type = ''confirm-provider-change'',
         pd_payload = Some (Some (''rinkeby'', ''predefined'')), pd_approve = True\<rparr>,
      CloseChannel ''torus_provider_change_channel'',
      WindowClose] \<and>
   triggerDeny ex_component =
     [NewChannel ''torus_provider_change_channel'',
      Post ''torus_provider_change_channel''
        \<lparr>pd_type = ''deny-provider-change'', pd_payload = None, pd_approve = False\<rparr>,
      CloseChannel ''torus_provider_change_channel'',
      WindowClose]"
  using provider_change_decision_on_fixed_channel [of ex_component]
  by (simp add: triggerSign_def triggerDeny_def ex_component_def)

section \<open>Which kind of pending work is handled\<close>

lemma unApproved_transactions: "unApprovedTransactions st \<noteq> [] \<Longrightarrow> transactions st \<noteq> []"
  by (auto simp: unApprovedTransactions_def)

lemma parseInt_Undefined: "parseInt Undefined = None"
  by code_simp

text \<open>
  C3 (as amended). Transactions are handled only when no message is pending. With the
  three message collections empty and an unapproved transaction present,
  \<^verbatim>\<open>isTorusTransaction\<close> returns true, \<^verbatim>\<open>handleDeny\<close> calls \<^verbatim>\<open>cancelTransaction\<close>, and
  \<^verbatim>\<open>handleConfirm\<close> calls operations of the transaction path only (or raises the
  SyntaxError of \<^verbatim>\<open>JSON.parse(undefined)\<close>). As soon as one message collection is
  non-empty, \<^verbatim>\<open>isTorusTransaction\<close> returns false and neither \<^verbatim>\<open>handleDeny\<close> nor
  \<^verbatim>\<open>handleConfirm\<close> calls an operation of the transaction path, whatever the transactions.
\<close>

theorem messages_take_priority_over_transactions:
  "(unapprovedPersonalMsgs st = [] \<and> unapprovedMsgs st = [] \<and> unapprovedTypedMessages st = [] \<and>
    unApprovedTransactions st \<noteq> [] \<longrightarrow>
      isTorusTransaction st = Inr True \<and>
      handleDeny st i = [CancelTransaction (parseInt i)] \<and>
      (case handleConfirm st d of
         Inl e \<Rightarrow> e = SyntaxError
       | Inr (st', cs) \<Rightarrow> st' = st \<and> cs \<noteq> [] \<and> list_all isTransactionCall cs)) \<and>
   (unapprovedPersonalMsgs st \<noteq> [] \<or> unapprovedMsgs st \<noteq> [] \<or> unapprovedTypedMessages st \<noteq> [] \<longrightarrow>
      isTorusTransaction st = Inr False \<and>
      handleDeny st i \<noteq> [] \<and> \<not> list_ex isTransactionCall (handleDeny st i) \<and>
      (case handleConfirm st d of
         Inl e \<Rightarrow> e = TypeError
       | Inr (st', cs) \<Rightarrow> cs \<noteq> [] \<and> \<not> list_ex isTransactionCall cs))"
proof (intro conjI impI)
  assume a: "unapprovedPersonalMsgs st = [] \<and> unapprovedMsgs st = [] \<and> unapprovedTypedMessages st = [] \<and>
    unApprovedTransactions st \<noteq> []"
  then have t: "transactions st \<noteq> []" by (simp add: unApproved_transactions)
  show "isTorusTransaction st = Inr True" using a by (simp add: isTorusTransaction_def)
  show "handleDeny st i = [CancelTransaction (parseInt i)]" using a t by (simp add: handleDeny_def)
  show "case handleConfirm st d of
         Inl e \<Rightarrow> e = SyntaxError
       | Inr (st', cs) \<Rightarrow> st' = st \<and> cs \<noteq> [] \<and> list_all isTransactionCall cs"
    using a t by (simp add: handleConfirm_def Let_def split: option.splits)
next
  assume b: "unapprovedPersonalMsgs st \<noteq> [] \<or> unapprovedMsgs st \<noteq> [] \<or> unapprovedTypedMessages st \<noteq> []"
  show "isTorusTransaction st = Inr False" using b by (auto simp: isTorusTransaction_def)
  show "handleDeny st i \<noteq> []" using b by (auto simp: handleDeny_def)
  show "\<not> list_ex isTransactionCall (handleDeny st i)" using b by (auto simp: handleDeny_def)
  show "case handleConfirm st d of
         Inl e \<Rightarrow> e = TypeError
       | Inr (st', cs) \<Rightarrow> cs \<noteq> [] \<and> \<not> list_ex isTransactionCall cs"
    using b by (auto simp: handleConfirm_def split: option.splits)
qed

theorem messages_take_priority_over_transactions_witness:
  "isTorusTransaction ex_txStore = Inr True \<and>
   handleDeny ex_txStore (Num 7) = [CancelTransaction (Some 7)] \<and>
   handleConfirm ex_txStore \<lparr>d_type = ''confirm-transaction'', d_id = Num 7, d_gasPrice = None\<rparr>
     = Inr (ex_txStore, [UpdateAndApproveTransaction (Some ex_tx)]) \<and>
   isTorusTransaction ex_mixed = Inr False \<and>
   handleDeny ex_mixed (Str ''3'') = [CancelPersonalMessage (Some 3)]"
proof -
  have p: "parseInt (Num 7) = Some 7" "parseInt (Str ''3'') = Some 3" by code_simp+
  have h1: "unapprovedPersonalMsgs ex_txStore = [] \<and> unapprovedMsgs ex_txStore = [] \<and>
      unapprovedTypedMessages ex_txStore = [] \<and> unApprovedTransactions ex_txStore \<noteq> []"
    by (simp add: ex_txStore_def ex_empty_def unApprovedTransactions_def ex_tx_def)
  have h2: "unapprovedPersonalMsgs ex_mixed \<noteq> [] \<or> unapprovedMsgs ex_mixed \<noteq> [] \<or>
      unapprovedTypedMessages ex_mixed \<noteq> []"
    by (simp add: ex_mixed_def)
  have c: "handleConfirm ex_txStore \<lparr>d_type = ''confirm-transaction'', d_id = Num 7, d_gasPrice = None\<rparr>
     = Inr (ex_txStore, [UpdateAndApproveTransaction (Some ex_tx)])"
    by (simp add: handleConfirm_def ex_txStore_def ex_empty_def unApprovedTransactions_def ex_tx_def carriedGasPrice_def)
  have d: "handleDeny ex_mixed (Str ''3'') = [CancelPersonalMessage (Some 3)]"
    by (simp add: handleDeny_def ex_mixed_def p)
  show ?thesis
    using h1 h2 messages_take_priority_over_transactions [of ex_txStore "Num 7" "\<lparr>d_type = ''confirm-transaction'', d_id = Num 7, d_gasPrice = None\<rparr>"]
      messages_take_priority_over_transactions [of ex_mixed "Str ''3''" "\<lparr>d_type = ''confirm-transaction'', d_id = Num 7, d_gasPrice = None\<rparr>"]
    by (simp add: p c d)
qed

text \<open>
  The claim as stated fails on \<open>ex_mixed\<close>: an unapproved transaction is pending next to
  a personal message, and the work is classified and denied as a message.
\<close>

theorem transactions_priority_counterexample:
  "transactions ex_mixed \<noteq> [] \<and> unApprovedTransactions ex_mixed = [ex_tx] \<and>
   isTorusTransaction ex_mixed = Inr False \<and>
   handleDeny ex_mixed (Num 7) = [CancelPersonalMessage (Some 7)] \<and>
   handleConfirm ex_mixed \<lparr>d_type = ''confirm-transaction'', d_id = Num 7, d_gasPrice = None\<rparr> = Inl TypeError"
proof -
  have p: "parseInt (Num 7) = Some 7" by code_simp
  have k: "toKey (Num 7) = ''7''" by code_simp
  show ?thesis
    by (simp add: ex_mixed_def ex_txStore_def ex_empty_def unApprovedTransactions_def ex_tx_def
        isTorusTransaction_def handleDeny_def handleConfirm_def p k)
qed

section \<open>The watchdog before the ready signal\<close>

lemma showPopup_ex_mixed:
  "showPopup ex_utils ''a1'' True ex_mixed = Inr (ex_mixed_shown, ex_fresh)"
  by (simp add: showPopup_def isTorusTransaction_def ex_mixed_def ex_mixed_shown_def
      ex_txStore_def ex_empty_def getLatestMessageParams_def decorate_def ex_msg_def ex_mp_def
      ex_utils_def ex_fresh_def setMessage_def displayText_def updateEntry_def)

text \<open>
  What the timer callback does when the user closes the surface before any ready signal,
  for every registry: it ends the session with \<^verbatim>\<open>txId\<close> still undefined, the channel
  closed and the timer cleared, and calls \<^verbatim>\<open>handleDeny(undefined)\<close>, whose
  \<^verbatim>\<open>parseInt(undefined, 10)\<close> is \<^verbatim>\<open>NaN\<close>.
\<close>

lemma tick_unset_id:
  assumes "timerOn s" and "confirmWindow s = Some c" and "\<not> iClosedConfirmWindow s"
    and "txId s = Undefined"
  shows "txId (fst (tick st (userCloses s))) = Undefined \<and>
         \<not> bcOpen (fst (tick st (userCloses s))) \<and>
         \<not> timerOn (fst (tick st (userCloses s))) \<and>
         snd (tick st (userCloses s)) =
           [LogError ''user closed popup'', Denied Undefined (handleDeny st Undefined)] \<and>
         handleDeny st Undefined =
           (if unapprovedPersonalMsgs st \<noteq> [] then [CancelPersonalMessage None]
            else if unapprovedMsgs st \<noteq> [] then [CancelMessage None]
            else if unapprovedTypedMessages st \<noteq> [] then [CancelTypedMessage None]
            else if transactions st \<noteq> [] then [CancelTransaction None]
            else [])"
  using assms by (simp add: tick_user_closed handleDeny_def parseInt_Undefined)

text \<open>
  C7. The claim asks that a session closed by the user before any ready signal resolves as
  a deny with the correlation id unset and without any accept or reject call for the
  unset id. The code does the first and not the second. On \<open>ex_mixed\<close> (a personal message
  and a transaction pending) \<^verbatim>\<open>showPopup\<close> opens the surface with \<^verbatim>\<open>txId\<close> undefined; the
  user closes the window; the next run of the timer logs the event, ends the session with
  \<^verbatim>\<open>txId\<close> undefined, and calls \<^verbatim>\<open>handleDeny(undefined)\<close>, which calls
  \<^verbatim>\<open>cancelPersonalMessage(NaN)\<close>: a reject call for an id that names no request, so the
  request the surface stood for is left pending.
\<close>

theorem watchdog_unset_id_cancels_with_NaN:
  "showPopup ex_utils ''a1'' True ex_mixed = Inr (ex_mixed_shown, ex_fresh) \<and>
   txId ex_fresh = Undefined \<and>
   txId (fst (tick ex_mixed_shown (userCloses ex_fresh))) = Undefined \<and>
   snd (tick ex_mixed_shown (userCloses ex_fresh)) =
     [LogError ''user closed popup'', Denied Undefined [CancelPersonalMessage None]] \<and>
   controllerCalls (snd (tick ex_mixed_shown (userCloses ex_fresh))) =
     [CancelPersonalMessage None]"
proof -
  have a: "timerOn ex_fresh" "confirmWindow ex_fresh = Some False"
    "\<not> iClosedConfirmWindow ex_fresh" "txId ex_fresh = Undefined"
    by (simp_all add: ex_fresh_def)
  have p: "unapprovedPersonalMsgs ex_mixed_shown \<noteq> []"
    by (simp add: ex_mixed_shown_def)
  have t: "snd (tick ex_mixed_shown (userCloses ex_fresh)) =
     [LogError ''user closed popup'', Denied Undefined [CancelPersonalMessage None]]"
    using tick_unset_id [OF a, of ex_mixed_shown] by (simp add: p)
  have i: "txId (fst (tick ex_mixed_shown (userCloses ex_fresh))) = Undefined"
    using tick_unset_id [OF a, of ex_mixed_shown] by simp
  have c: "controllerCalls (snd (tick ex_mixed_shown (userCloses ex_fresh))) =
     [CancelPersonalMessage None]"
    unfolding t by (simp add: controllerCalls_def)
  show ?thesis
    using showPopup_ex_mixed a(4) i t c by blast
qed

section \<open>Confirming a transaction with an edited gas price\<close>

text \<open>
  C10 (as amended). For a decision whose id is that of an unapproved transaction, with
  no message pending: if the decision carries a non-empty \<^verbatim>\<open>gasPrice\<close>, the transaction
  handed to \<^verbatim>\<open>updateTransaction\<close> and \<^verbatim>\<open>updateAndApproveTransaction\<close> is the pending one
  with \<^verbatim>\<open>txParams.gasPrice\<close> replaced by the carried value and every other field as it
  was; if \<^verbatim>\<open>gasPrice\<close> is absent or the empty string, the pending transaction is approved
  unmodified.
\<close>

theorem confirm_gasPrice_frame:
  assumes "unapprovedPersonalMsgs st = []" and "unapprovedMsgs st = []"
    and "unapprovedTypedMessages st = []"
    and "find (\<lambda>x. Num (tx_id x) = d_id d) (unApprovedTransactions st) = Some t"
  shows "(d_gasPrice d = Some g \<and> g \<noteq> [] \<longrightarrow>
            (\<exists>t'. handleConfirm st d =
                     Inr (st, [UpdateTransaction t', UpdateAndApproveTransaction (Some t')]) \<and>
                   tp_gasPrice (tx_params t') = g \<and>
                   tp_from (tx_params t') = tp_from (tx_params t) \<and>
                   tp_to (tx_params t') = tp_to (tx_params t) \<and>
                   tp_value (tx_params t') = tp_value (tx_params t) \<and>
                   tp_gas (tx_params t') = tp_gas (tx_params t) \<and>
                   tp_data (tx_params t') = tp_data (tx_params t) \<and>
                   tx_id t' = tx_id t \<and> tx_status t' = tx_status t \<and>
                   tx_time t' = tx_time t \<and> tx_hash t' = tx_hash t)) \<and>
         (d_gasPrice d = None \<or> d_gasPrice d = Some [] \<longrightarrow>
            handleConfirm st d = Inr (st, [UpdateAndApproveTransaction (Some t)]))"
proof -
  have "unApprovedTransactions st \<noteq> []" using assms(4) by auto
  then have t: "transactions st \<noteq> []" by (rule unApproved_transactions)
  show ?thesis using assms t
    by (auto simp: handleConfirm_def carriedGasPrice_def Let_def)
qed


theorem confirm_gasPrice_frame_witness:
  "find (\<lambda>x. Num (tx_id x) = Num 7) (unApprovedTransactions ex_txStore) = Some ex_tx \<and>
   handleConfirm ex_txStore
     \<lparr>d_type = ''confirm-transaction'', d_id = Num 7, d_gasPrice = Some ''0x77''\<rparr> =
   Inr (ex_txStore,
        [UpdateTransaction (ex_tx\<lparr>tx_params := (tx_params ex_tx)\<lparr>tp_gasPrice := ''0x77''\<rparr>\<rparr>),
         UpdateAndApproveTransaction
           (Some (ex_tx\<lparr>tx_params := (tx_params ex_tx)\<lparr>tp_gasPrice := ''0x77''\<rparr>\<rparr>))]) \<and>
   handleConfirm ex_txStore
     \<lparr>d_type = ''confirm-transaction'', d_id = Num 7, d_gasPrice = None\<rparr> =
   Inr (ex_txStore, [UpdateAndApproveTransaction (Some ex_tx)])"
proof -
  have a: "unapprovedPersonalMsgs ex_txStore = []" "unapprovedMsgs ex_txStore = []"
    "unapprovedTypedMessages ex_txStore = []"
    by (simp_all add: ex_txStore_def ex_empty_def)
  have u: "unApprovedTransactions ex_txStore = [ex_tx]"
    by (simp add: unApprovedTransactions_def ex_txStore_def ex_empty_def ex_tx_def)
  have f: "find (\<lambda>x. Num (tx_id x) = Num 7) (unApprovedTransactions ex_txStore) = Some ex_tx"
    by (simp add: u) (simp add: ex_tx_def)
  have f1: "find (\<lambda>x. Num (tx_id x) =
                d_id \<lparr>d_type = ''confirm-transaction'', d_id = Num 7, d_gasPrice = Some ''0x77''\<rparr>)
              (unApprovedTransactions ex_txStore) = Some ex_tx"
    using f by simp
  have f2: "find (\<lambda>x. Num (tx_id x) =
                d_id \<lparr>d_type = ''confirm-transaction'', d_id = Num 7, d_gasPrice = None\<rparr>)
              (unApprovedTransactions ex_txStore) = Some ex_tx"
    using f by simp
  have f': "find (\<lambda>x. tx_id x = 7) (unApprovedTransactions ex_txStore) = Some ex_tx"
    using f by simp
  have t: "transactions ex_txStore \<noteq> []"
    by (simp add: ex_txStore_def)
  have r1: "handleConfirm ex_txStore
      \<lparr>d_type = ''confirm-transaction'', d_id = Num 7, d_gasPrice = Some ''0x77''\<rparr> =
    Inr (ex_txStore,
         [UpdateTransaction (ex_tx\<lparr>tx_params := (tx_params ex_tx)\<lparr>tp_gasPrice := ''0x77''\<rparr>\<rparr>),
          UpdateAndApproveTransaction
            (Some (ex_tx\<lparr>tx_params := (tx_params ex_tx)\<lparr>tp_gasPrice := ''0x77''\<rparr>\<rparr>))])"
    using confirm_gasPrice_frame [OF a f1, of "''0x77''"] f'
    by (simp add: handleConfirm_def a t carriedGasPrice_def Let_def)
  have r2: "handleConfirm ex_txStore
      \<lparr>d_type = ''confirm-transaction'', d_id = Num 7, d_gasPrice = None\<rparr> =
    Inr (ex_txStore, [UpdateAndApproveTransaction (Some ex_tx)])"
    using confirm_gasPrice_frame [OF a f2, of "''0x77''"] by simp
  show ?thesis
    using f r1 r2 by blast
qed

text \<open>
  The hypothesis that no message is pending is needed: on \<open>ex_mixed\<close> transaction 7 is
  pending and the decision carries a gas price, yet \<^verbatim>\<open>handleConfirm\<close> takes the personal
  message branch, finds no message under the key 7 and raises; nothing is approved.
\<close>

lemma confirm_gasPrice_message_pending:
  "find (\<lambda>x. Num (tx_id x) = Num 7) (unApprovedTransactions ex_mixed) = Some ex_tx \<and>
   handleConfirm ex_mixed
     \<lparr>d_type = ''confirm-transaction'', d_id = Num 7, d_gasPrice = Some ''0x77''\<rparr> =
   Inl TypeError"
proof -
  have k: "toKey (Num 7) = ''7''"
    by code_simp
  show ?thesis
    by (simp add: ex_mixed_def ex_txStore_def ex_empty_def unApprovedTransactions_def ex_tx_def
        handleConfirm_def k)
qed

text \<open>
  The claim as stated fails for a decision that carries the empty string as
  \<^verbatim>\<open>gasPrice\<close>: the field is carried, yet the transaction is approved with its own
  gas price.
\<close>

theorem confirm_empty_gasPrice_counterexample:
  "d_gasPrice \<lparr>d_type = ''confirm-transaction'', d_id = Num 7, d_gasPrice = Some ''''\<rparr> = Some '''' \<and>
   handleConfirm ex_txStore \<lparr>d_type = ''confirm-transaction'', d_id = Num 7, d_gasPrice = Some ''''\<rparr>
     = Inr (ex_txStore, [UpdateAndApproveTransaction (Some ex_tx)]) \<and>
   tp_gasPrice (tx_params ex_tx) = ''0x3b9aca00''"
  by (simp add: handleConfirm_def ex_txStore_def ex_empty_def unApprovedTransactions_def ex_tx_def carriedGasPrice_def)

section \<open>The transform stage is idempotent\<close>

text \<open>
  C6. For a request whose method is \<^verbatim>\<open>eth_call\<close> or \<^verbatim>\<open>eth_estimateGas\<close>, passing the
  output of the stage through the stage again gives the output of the first pass, for
  every implementation of \<^verbatim>\<open>Buffer.from\<close>; an error of the first pass stays that error.
\<close>

theorem transform_idempotent:
  assumes "rpc_method chunk = ''eth_call'' \<or> rpc_method chunk = ''eth_estimateGas''"
  shows "transformTwice bufferFrom chunk = transform bufferFrom chunk"
proof (cases "rpc_params chunk")
  case None
  then show ?thesis using assms by (simp add: transformTwice_def transform_def)
next
  case (Some ps)
  show ?thesis
  proof (cases ps)
    case Nil
    then show ?thesis using assms Some by (simp add: transformTwice_def transform_def)
  next
    case (Cons p rest)
    then show ?thesis using assms Some
      by (cases "cp_from p") (auto simp: transformTwice_def transform_def split: sum.splits)
  qed
qed


theorem transform_idempotent_witness:
  "rpc_method ex_request = ''eth_call'' \<and>
   rpc_method ex_request_nofrom = ''eth_estimateGas'' \<and>
   transform nodeBufferFrom ex_request =
     Inr (ex_request\<lparr>rpc_params :=
       Some [\<lparr>cp_from = FBuffer [0, 255], cp_to = Some ''0xcd'', cp_data = None\<rparr>]\<rparr>) \<and>
   transformTwice nodeBufferFrom ex_request = transform nodeBufferFrom ex_request \<and>
   transform nodeBufferFrom ex_request_nofrom =
     Inr (ex_request_nofrom\<lparr>rpc_params :=
       Some [\<lparr>cp_from = FEmptyArray, cp_to = Some ''0xcd'', cp_data = None\<rparr>]\<rparr>) \<and>
   transformTwice nodeBufferFrom ex_request_nofrom = transform nodeBufferFrom ex_request_nofrom"
proof -
  have a: "rpc_method ex_request = ''eth_call'' \<or> rpc_method ex_request = ''eth_estimateGas''"
    by (simp add: ex_request_def)
  have b: "rpc_method ex_request_nofrom = ''eth_call'' \<or>
           rpc_method ex_request_nofrom = ''eth_estimateGas''"
    by (simp add: ex_request_nofrom_def)
  have 1: "transform nodeBufferFrom ex_request =
     Inr (ex_request\<lparr>rpc_params :=
       Some [\<lparr>cp_from = FBuffer [0, 255], cp_to = Some ''0xcd'', cp_data = None\<rparr>]\<rparr>)"
    by (simp add: transform_def ex_request_def nodeBufferFrom_def hexVal_def)
  have 2: "transform nodeBufferFrom ex_request_nofrom =
     Inr (ex_request_nofrom\<lparr>rpc_params :=
       Some [\<lparr>cp_from = FEmptyArray, cp_to = Some ''0xcd'', cp_data = None\<rparr>]\<rparr>)"
    by (simp add: transform_def ex_request_nofrom_def)
  have 3: "rpc_method ex_request = ''eth_call''"
    by (simp add: ex_request_def)
  have 4: "rpc_method ex_request_nofrom = ''eth_estimateGas''"
    by (simp add: ex_request_nofrom_def)
  show ?thesis
    using 1 2 3 4 transform_idempotent [OF a, of nodeBufferFrom]
      transform_idempotent [OF b, of nodeBufferFrom]
    by blast
qed

section \<open>Selecting the latest pending message\<close>

lemma selects_None:
  "selects V xs (t, None, fid) = (t = 0 \<and> (\<forall>e\<in>set xs. timeOf e \<le> 0))"
  by (simp add: selects_def)

lemma selects_Some:
  "selects V xs (t, Some (k, key, m'), fid) =
     (0 < t \<and> fid = Str key \<and>
      (\<exists>pre m post. xs = pre @ (k, key, m) # post \<and> m' = V k m \<and> t = msg_time m \<and>
         (\<forall>e\<in>set pre. timeOf e < t) \<and> (\<forall>e\<in>set post. timeOf e \<le> t)))"
  by (simp add: selects_def)

lemma selects_bound:
  assumes "selects V xs (t, msg, fid)"
  shows "0 \<le> t \<and> (\<forall>e\<in>set xs. timeOf e \<le> t)"
proof (cases msg)
  case None
  then show ?thesis using assms by (simp add: selects_None)
next
  case (Some a)
  obtain k key m' where a: "a = (k, key, m')" by (cases a) auto
  have s: "selects V xs (t, Some (k, key, m'), fid)" using assms Some a by simp
  from s[unfolded selects_Some] obtain pre m post where
    p: "xs = pre @ (k, key, m) # post" "t = msg_time m"
       "\<forall>e\<in>set pre. timeOf e < t" "\<forall>e\<in>set post. timeOf e \<le> t" "0 < t"
    by blast
  have "timeOf (k, key, m) \<le> t" using p(2) by (simp add: timeOf_def)
  moreover have "\<forall>e\<in>set pre. timeOf e \<le> t" using p(3) by fastforce
  ultimately have "\<forall>e\<in>set xs. timeOf e \<le> t" using p(4) unfolding p(1) by auto
  then show ?thesis using p(5) by simp
qed


lemma selects_keep:
  assumes "selects V xs (t, msg, fid)" and "timeOf e \<le> t"
  shows "selects V (xs @ [e]) (t, msg, fid)"
proof (cases msg)
  case None
  then show ?thesis using assms by (simp add: selects_None)
next
  case (Some a)
  obtain k key m' where a: "a = (k, key, m')" by (cases a) auto
  have s: "selects V xs (t, Some (k, key, m'), fid)" using assms Some a by simp
  from s[unfolded selects_Some] obtain pre m post where
    p: "xs = pre @ (k, key, m) # post" "m' = V k m" "t = msg_time m"
       "\<forall>e\<in>set pre. timeOf e < t" "\<forall>e\<in>set post. timeOf e \<le> t" "0 < t" "fid = Str key"
    by blast
  have 1: "xs @ [e] = pre @ (k, key, m) # (post @ [e])" using p(1) by simp
  have 2: "\<forall>x\<in>set (post @ [e]). timeOf x \<le> t" using p(5) assms(2) by simp
  have "selects V (xs @ [e]) (t, Some (k, key, m'), fid)"
    unfolding selects_Some using 1 2 p(2,3,4,6,7) by blast
  then show ?thesis using Some a by simp
qed

lemma selects_take:
  assumes "selects V xs (t, msg, fid)" and "t < msg_time m"
  shows "selects V (xs @ [(k, key, m)]) (msg_time m, Some (k, key, V k m), Str key)"
proof -
  from selects_bound[OF assms(1)] have b: "0 \<le> t" "\<forall>e\<in>set xs. timeOf e \<le> t" by auto
  have 1: "\<forall>e\<in>set xs. timeOf e < msg_time m" using b(2) assms(2) by fastforce
  have 2: "0 < msg_time m" using b(1) assms(2) by simp
  have 3: "xs @ [(k, key, m)] = xs @ (k, key, m) # []" by simp
  have 4: "\<forall>e\<in>set []. timeOf e \<le> msg_time m" by simp
  show ?thesis
    unfolding selects_Some using 1 2 3 4 by blast
qed

lemma scanMessages_selects:
  assumes "selects V xs c" and "\<And>m. V k m = m"
  shows "selects V (xs @ map (Pair k) ys) (scanMessages k ys c)"
  using assms(1)
proof (induction ys arbitrary: xs c)
  case Nil
  then show ?case by simp
next
  case (Cons y ys)
  obtain key m where y: "y = (key, m)" by (cases y)
  obtain t msg fid where c: "c = (t, msg, fid)" by (cases c)
  show ?case
  proof (cases "t < msg_time m")
    case True
    from selects_take[OF Cons.prems[unfolded c] True, of k key]
    have "selects V (xs @ [(k, key, m)]) (msg_time m, Some (k, key, m), Str key)"
      by (simp add: assms(2))
    from Cons.IH[OF this] show ?thesis using True y c by simp
  next
    case False
    then have "timeOf (k, key, m) \<le> t" by (simp add: timeOf_def)
    from selects_keep[OF Cons.prems[unfolded c] this]
    have "selects V (xs @ [(k, key, m)]) (t, msg, fid)" .
    from Cons.IH[OF this] show ?thesis using False y c by simp
  qed
qed

lemma fst_scanTyped_Cons:
  "fst (scanTyped ((key, m) # rest) (t, msg, fid)) =
     (if msg_time m > t
      then fst (scanTyped rest (msg_time m, Some (Typed, key, setTyped m), Str key))
      else fst (scanTyped rest (t, msg, fid)))"
  by (simp split: prod.splits)

lemma scanTyped_selects:
  assumes "selects V xs c" and "\<And>m. V Typed m = setTyped m"
  shows "selects V (xs @ map (Pair Typed) ys) (fst (scanTyped ys c))"
  using assms(1)
proof (induction ys arbitrary: xs c)
  case Nil
  then show ?case by simp
next
  case (Cons y ys)
  obtain key m where y: "y = (key, m)" by (cases y)
  obtain t msg fid where c: "c = (t, msg, fid)" by (cases c)
  show ?case
  proof (cases "t < msg_time m")
    case True
    from selects_take[OF Cons.prems[unfolded c] True, of Typed key]
    have "selects V (xs @ [(Typed, key, m)]) (msg_time m, Some (Typed, key, setTyped m), Str key)"
      by (simp add: assms(2))
    from Cons.IH[OF this] show ?thesis unfolding y c fst_scanTyped_Cons using True by simp
  next
    case False
    then have "timeOf (Typed, key, m) \<le> t" by (simp add: timeOf_def)
    from selects_keep[OF Cons.prems[unfolded c] this]
    have "selects V (xs @ [(Typed, key, m)]) (t, msg, fid)" .
    from Cons.IH[OF this] show ?thesis unfolding y c fst_scanTyped_Cons using False by simp
  qed
qed

lemma selects_initial: "selects V [] (0, None, Num 0)"
  by (simp add: selects_None)

lemma decorate_selects:
  assumes "selects (\<lambda>k m. m) xs c" and "\<forall>e\<in>set xs. fst e \<noteq> Typed"
  shows "selects (shown h) xs (fst (decorate h c st)) \<and>
         unapprovedTypedMessages (snd (decorate h c st)) = unapprovedTypedMessages st"
proof -
  obtain t msg fid where c: "c = (t, msg, fid)" by (cases c)
  show ?thesis
  proof (cases msg)
    case None
    then show ?thesis using assms(1) c by (simp add: decorate_def selects_None)
  next
    case (Some a)
    obtain k key m where a: "a = (k, key, m)" by (cases a) auto
    have s: "selects (\<lambda>k m. m) xs (t, Some (k, key, m), fid)" using assms(1) c Some a by simp
    from s[unfolded selects_Some] obtain pre post where
      p: "xs = pre @ (k, key, m) # post" "t = msg_time m"
         "\<forall>e\<in>set pre. timeOf e < t" "\<forall>e\<in>set post. timeOf e \<le> t" "0 < t" "fid = Str key"
      by blast
    have "(k, key, m) \<in> set xs" unfolding p(1) by simp
    then have k: "k \<noteq> Typed" using assms(2) by fastforce
    have v: "setMessage (displayText h m) m = shown h k m" using k by (simp add: shown_def)
    have 1: "selects (shown h) xs (t, Some (k, key, setMessage (displayText h m) m), fid)"
      unfolding selects_Some using p v by blast
    have d: "decorate h c st =
        ((t, Some (k, key, setMessage (displayText h m) m), fid),
         (case k of
            Plain \<Rightarrow> st\<lparr>unapprovedMsgs :=
                updateEntry key (setMessage (displayText h m)) (unapprovedMsgs st)\<rparr>
          | Personal \<Rightarrow> st\<lparr>unapprovedPersonalMsgs :=
                updateEntry key (setMessage (displayText h m)) (unapprovedPersonalMsgs st)\<rparr>
          | Typed \<Rightarrow> st\<lparr>unapprovedTypedMessages :=
                updateEntry key (setMessage (displayText h m)) (unapprovedTypedMessages st)\<rparr>))"
      unfolding c Some a by (simp add: decorate_def Let_def)
    have 2: "unapprovedTypedMessages (snd (decorate h c st)) = unapprovedTypedMessages st"
      unfolding d using k by (cases k) simp_all
    show ?thesis using 1 2 unfolding d by simp
  qed
qed

lemma sorted_const: "sorted (map (\<lambda>x. (c::nat)) xs)"
  by (induction xs) auto

lemma entries_sorted: "sorted (map (scanRank \<circ> fst) (entries st))"
  by (simp add: entries_def sorted_append comp_def sorted_const)

lemma later_rank:
  assumes "entries st = pre @ (k, key, m) # post" and "e \<in> set post"
  shows "scanRank k \<le> scanRank (fst e)"
proof -
  have "sorted (map (scanRank \<circ> fst) (pre @ (k, key, m) # post))"
    using entries_sorted[of st] assms(1) by simp
  then show ?thesis using assms(2) by (auto simp: sorted_append)
qed

lemma getLatest_selects:
  "selects (shown h) (entries st)
     (fst (scanTyped (unapprovedTypedMessages st)
        (fst (decorate h (scanMessages Personal (unapprovedPersonalMsgs st)
                (scanMessages Plain (unapprovedMsgs st) (0, None, Num 0))) st))))"
proof -
  let ?c1 = "scanMessages Plain (unapprovedMsgs st) (0, None, Num 0)"
  let ?c2 = "scanMessages Personal (unapprovedPersonalMsgs st) ?c1"
  have 1: "selects (\<lambda>k m. m) ([] @ map (Pair Plain) (unapprovedMsgs st)) ?c1"
    by (rule scanMessages_selects[OF selects_initial]) simp
  have 2: "selects (\<lambda>k m. m) (([] @ map (Pair Plain) (unapprovedMsgs st)) @ map (Pair Personal) (unapprovedPersonalMsgs st)) ?c2"
    by (rule scanMessages_selects[OF 1]) simp
  have nt: "\<forall>e\<in>set (([] @ map (Pair Plain) (unapprovedMsgs st)) @ map (Pair Personal) (unapprovedPersonalMsgs st)). fst e \<noteq> Typed"
    by auto
  from decorate_selects[OF 2 nt, of h st]
  have 3: "selects (shown h) (([] @ map (Pair Plain) (unapprovedMsgs st)) @ map (Pair Personal) (unapprovedPersonalMsgs st)) (fst (decorate h ?c2 st))"
    by simp
  have "selects (shown h) ((([] @ map (Pair Plain) (unapprovedMsgs st)) @ map (Pair Personal) (unapprovedPersonalMsgs st)) @ map (Pair Typed) (unapprovedTypedMessages st))
     (fst (scanTyped (unapprovedTypedMessages st) (fst (decorate h ?c2 st))))"
    by (rule scanTyped_selects[OF 3]) (simp add: shown_def)
  then show ?thesis by (simp add: entries_def)
qed

lemma getLatest_unfold:
  "fst (getLatestMessageParams h st) =
     (case fst (scanTyped (unapprovedTypedMessages st)
        (fst (decorate h (scanMessages Personal (unapprovedPersonalMsgs st)
                (scanMessages Plain (unapprovedMsgs st) (0, None, Num 0))) st))) of
        (t, None, finalId) \<Rightarrow> None
      | (t, Some (k, key, m), finalId) \<Rightarrow> Some (msg_params m, finalId))"
proof -
  let ?c2 = "scanMessages Personal (unapprovedPersonalMsgs st)
                (scanMessages Plain (unapprovedMsgs st) (0, None, Num 0))"
  have nt: "\<forall>e\<in>set (([] @ map (Pair Plain) (unapprovedMsgs st)) @
                      map (Pair Personal) (unapprovedPersonalMsgs st)). fst e \<noteq> Typed"
    by auto
  have 2: "selects (\<lambda>k m. m) (([] @ map (Pair Plain) (unapprovedMsgs st)) @
                      map (Pair Personal) (unapprovedPersonalMsgs st)) ?c2"
    by (rule scanMessages_selects[OF scanMessages_selects[OF selects_initial]]) simp_all
  obtain c2' st' where d: "decorate h ?c2 st = (c2', st')"
    by (cases "decorate h ?c2 st")
  from decorate_selects[OF 2 nt, of h st]
  have u: "unapprovedTypedMessages st' = unapprovedTypedMessages st"
    unfolding d by simp
  obtain c3 typed' where t: "scanTyped (unapprovedTypedMessages st) c2' = (c3, typed')"
    by (cases "scanTyped (unapprovedTypedMessages st) c2'")
  have "fst (getLatestMessageParams h st) =
          (case c3 of (t, None, finalId) \<Rightarrow> None
           | (t, Some (k, key, m), finalId) \<Rightarrow> Some (msg_params m, finalId))"
    by (simp add: getLatestMessageParams_def Let_def d u t)
  then show ?thesis by (simp add: d t)
qed

text \<open>
  C1 (as amended). When some pending message has a positive time,
  \<^verbatim>\<open>getLatestMessageParams\<close> returns the first entry, in scan order, whose time is
  maximal: every entry scanned before it is strictly older, every entry scanned after it
  is no newer and belongs to the same or a later-scanned collection. Of two entries of
  different kinds with the same maximal time the one of the kind scanned first (plain
  before personal before typed) is therefore the one returned. The result carries the
  entry's key and its \<^verbatim>\<open>msgParams\<close> with the display field written.
\<close>

theorem getLatestMessageParams_first_maximal:
  assumes "\<exists>e\<in>set (entries st). 0 < timeOf e"
  shows "\<exists>pre k key m post.
           entries st = pre @ (k, key, m) # post \<and>
           (\<forall>e\<in>set pre. timeOf e < msg_time m) \<and>
           (\<forall>e\<in>set post. timeOf e \<le> msg_time m \<and> scanRank k \<le> scanRank (fst e)) \<and>
           fst (getLatestMessageParams h st) = Some (msg_params (shown h k m), Str key)"
proof -
  let ?c = "fst (scanTyped (unapprovedTypedMessages st)
        (fst (decorate h (scanMessages Personal (unapprovedPersonalMsgs st)
                (scanMessages Plain (unapprovedMsgs st) (0, None, Num 0))) st)))"
  obtain t msg fid where c: "?c = (t, msg, fid)" by (cases ?c)
  have s: "selects (shown h) (entries st) (t, msg, fid)"
    using getLatest_selects[of h st] c by simp
  show ?thesis
  proof (cases msg)
    case None
    then have "\<forall>e\<in>set (entries st). timeOf e \<le> 0" using s by (simp add: selects_None)
    then show ?thesis using assms by fastforce
  next
    case (Some a)
    obtain k key m' where a: "a = (k, key, m')" by (cases a) auto
    have s': "selects (shown h) (entries st) (t, Some (k, key, m'), fid)" using s Some a by simp
    from s'[unfolded selects_Some] obtain pre m post where
      p: "entries st = pre @ (k, key, m) # post" "m' = shown h k m" "t = msg_time m"
         "\<forall>e\<in>set pre. timeOf e < t" "\<forall>e\<in>set post. timeOf e \<le> t" "fid = Str key"
      by blast
    have r: "\<forall>e\<in>set post. scanRank k \<le> scanRank (fst e)"
      using later_rank[OF p(1)] by blast
    have "fst (getLatestMessageParams h st) = Some (msg_params (shown h k m), Str key)"
      using c Some a p(2) p(6) by (simp add: getLatest_unfold)
    then show ?thesis using p r by blast
  qed
qed

theorem getLatestMessageParams_first_maximal_witness:
  "0 < timeOf (Typed, ''4'', ex_msg 75 ''typed'') \<and>
   entries ex_two =
     [(Personal, ''3'', ex_msg 50 ''0x6869''), (Typed, ''4'', ex_msg 75 ''typed'')] \<and>
   fst (getLatestMessageParams (hexToUtf8 ex_utils) ex_two) =
     Some (msg_params (shown (hexToUtf8 ex_utils) Typed (ex_msg 75 ''typed'')), Str ''4'') \<and>
   (\<exists>pre k key m post.
      entries ex_two = pre @ (k, key, m) # post \<and>
      (\<forall>e\<in>set pre. timeOf e < msg_time m) \<and>
      (\<forall>e\<in>set post. timeOf e \<le> msg_time m \<and> scanRank k \<le> scanRank (fst e)) \<and>
      fst (getLatestMessageParams (hexToUtf8 ex_utils) ex_two) =
        Some (msg_params (shown (hexToUtf8 ex_utils) k m), Str key))"
proof -
  have e: "entries ex_two =
     [(Personal, ''3'', ex_msg 50 ''0x6869''), (Typed, ''4'', ex_msg 75 ''typed'')]"
    by (simp add: entries_def ex_two_def ex_empty_def)
  have t: "0 < timeOf (Typed, ''4'', ex_msg 75 ''typed'')"
    by (simp add: timeOf_def ex_msg_def)
  have h: "\<exists>e\<in>set (entries ex_two). 0 < timeOf e"
    unfolding e using t by simp
  have v: "fst (getLatestMessageParams (hexToUtf8 ex_utils) ex_two) =
     Some (msg_params (shown (hexToUtf8 ex_utils) Typed (ex_msg 75 ''typed'')), Str ''4'')"
    by (simp add: getLatestMessageParams_def ex_two_def ex_empty_def ex_msg_def decorate_def
        Let_def shown_def)
  show ?thesis
    using e t v getLatestMessageParams_first_maximal [OF h, of "hexToUtf8 ex_utils"]
    by blast
qed

text \<open>
  The claim as stated fails on \<open>ex_tie\<close>: a plain and a typed message share the maximal
  time 5, and the plain one, scanned first, is returned, not the typed one.
\<close>

theorem getLatestMessageParams_tie_counterexample:
  "timeOf (Plain, ''1'', ex_msg 5 ''0x01'') = timeOf (Typed, ''2'', ex_msg 5 ''typed'') \<and>
   entries ex_tie = [(Plain, ''1'', ex_msg 5 ''0x01''), (Typed, ''2'', ex_msg 5 ''typed'')] \<and>
   fst (getLatestMessageParams (hexToUtf8 ex_utils) ex_tie) =
     Some (msg_params (shown (hexToUtf8 ex_utils) Plain (ex_msg 5 ''0x01'')), Str ''1'') \<and>
   mp_data (msg_params (shown (hexToUtf8 ex_utils) Plain (ex_msg 5 ''0x01''))) = ''0x01''"
  by (simp add: timeOf_def entries_def ex_tie_def ex_empty_def ex_msg_def ex_mp_def
      getLatestMessageParams_def decorate_def Let_def shown_def setMessage_def)

text \<open>
  The hypothesis of a positive time is needed: \<^verbatim>\<open>time\<close> starts at 0 and only a strictly
  larger time replaces it, so when no pending message has a positive time the function
  returns the empty object.
\<close>

lemma getLatestMessageParams_nothing_positive:
  assumes "\<forall>e\<in>set (entries st). timeOf e \<le> 0"
  shows "fst (getLatestMessageParams h st) = None"
proof -
  let ?c = "fst (scanTyped (unapprovedTypedMessages st)
        (fst (decorate h (scanMessages Personal (unapprovedPersonalMsgs st)
                (scanMessages Plain (unapprovedMsgs st) (0, None, Num 0))) st)))"
  obtain t msg fid where c: "?c = (t, msg, fid)" by (cases ?c)
  have s: "selects (shown h) (entries st) (t, msg, fid)"
    using getLatest_selects[of h st] c by simp
  show ?thesis
  proof (cases msg)
    case None
    then show ?thesis using c by (simp add: getLatest_unfold)
  next
    case (Some a)
    obtain k key m' where a: "a = (k, key, m')" by (cases a) auto
    have s': "selects (shown h) (entries st) (t, Some (k, key, m'), fid)" using s Some a by simp
    from s'[unfolded selects_Some] obtain pre m post where
      p: "entries st = pre @ (k, key, m) # post" "t = msg_time m" "0 < t"
      by blast
    have "(k, key, m) \<in> set (entries st)" unfolding p(1) by simp
    then have "timeOf (k, key, m) \<le> 0" using assms by blast
    then show ?thesis using p(2,3) by (simp add: timeOf_def)
  qed
qed

end
